theory Spec2Isabelle
  imports Main "HOL-Library.AList"
begin

section \<open>JavaScript values\<close>

text \<open>
  The values that cross the provider's interfaces at run time. The TypeScript annotations
  are erased when the code runs, and the handlers test their arguments with
  \<^verbatim>\<open>typeof\<close> and \<^verbatim>\<open>Array.isArray\<close>, so arguments are values of any shape.
  A number keeps an integer payload (only its type tag and its truthiness are ever
  inspected); an array or a plain object is identified with its contents; a function is an
  opaque token.
\<close>

datatype jsval =
    JUndefined
  | JNull
  | JBool bool
  | JNum int
  | JStr string
  | JArr "jsval list"
  | JObj "(string \<times> jsval) list"
  | JFun nat

text \<open>\<^verbatim>\<open>Boolean(v)\<close>: the falsy values are undefined, null, false, 0 and the empty string.\<close>

fun truthy :: "jsval \<Rightarrow> bool" where
  "truthy JUndefined = False"
| "truthy JNull = False"
| "truthy (JBool b) = b"
| "truthy (JNum n) = (n \<noteq> 0)"
| "truthy (JStr s) = (s \<noteq> [])"
| "truthy (JArr xs) = True"
| "truthy (JObj fs) = True"
| "truthy (JFun f) = True"

text \<open>\<^verbatim>\<open>typeof v === 'string'\<close>, \<^verbatim>\<open>Array.isArray(v)\<close> and \<^verbatim>\<open>typeof v === 'object'\<close>
  (which null and arrays satisfy, and functions do not).\<close>

fun isString :: "jsval \<Rightarrow> bool" where
  "isString (JStr s) = True"
| "isString v = False"

fun isArray :: "jsval \<Rightarrow> bool" where
  "isArray (JArr xs) = True"
| "isArray v = False"

fun typeofObject :: "jsval \<Rightarrow> bool" where
  "typeofObject JNull = True"
| "typeofObject (JArr xs) = True"
| "typeofObject (JObj fs) = True"
| "typeofObject v = False"

text \<open>\<^verbatim>\<open>a || b\<close>.\<close>

definition jsOr :: "jsval \<Rightarrow> jsval \<Rightarrow> jsval" where
  "jsOr a b = (if truthy a then a else b)"

text \<open>\<^verbatim>\<open>xs[0]\<close> on an array: undefined when the array is empty.\<close>

fun index0 :: "jsval list \<Rightarrow> jsval" where
  "index0 [] = JUndefined"
| "index0 (x # xs) = x"

text \<open>\<^verbatim>\<open>o.k\<close> on a plain object: the value stored under the key, undefined otherwise.\<close>

fun getProp :: "jsval \<Rightarrow> string \<Rightarrow> jsval" where
  "getProp (JObj fs) k = (case map_of fs k of None \<Rightarrow> JUndefined | Some v \<Rightarrow> v)"
| "getProp v k = JUndefined"

text \<open>
  \<^verbatim>\<open>for (const x of v)\<close>: an array yields its elements and a string yields its characters as
  one-character strings; every other value of this model is not iterable and the loop
  throws a TypeError before its first round.
\<close>

fun iterate :: "jsval \<Rightarrow> jsval list option" where
  "iterate (JArr xs) = Some xs"
| "iterate (JStr cs) = Some (map (\<lambda>c. JStr [c]) cs)"
| "iterate v = None"

section \<open>The provider state machine (BaseProvider)\<close>

text \<open>
  The texts of the \<^verbatim>\<open>messages\<close> module are not part of the sources at hand; a message is
  kept as the name of the function that builds it.
\<close>

datatype message =
    Text string
  | MsgDisconnected
  | MsgPermanentlyDisconnected

text \<open>\<^verbatim>\<open>new EthereumRpcError(code, message)\<close>.\<close>

datatype rpcError = EthereumRpcError int message

datatype event =
    EvConnect jsval
  | EvDisconnect rpcError
  | EvChainChanged jsval
  | EvAccountsChanged "jsval list"
  | EvInitialized

datatype logEntry =
    DebugConnected jsval
  | DebugError rpcError
  | ErrorError rpcError
  | ErrorInvalidNetworkParams jsval
  | ErrorInvalidAccounts jsval
  | ErrorNonStringAccount jsval
  | ErrorEthAccountsUpdated "jsval list"
  | ErrorInvalidIsUnlocked

text \<open>
  The private \<^verbatim>\<open>_state\<close> object and the two public fields of one instance, together with
  what the instance has emitted and logged so far, oldest first.
\<close>

record provider =
  accounts :: "jsval list option"
  isConnected :: bool
  isUnlocked :: bool
  initialized :: bool
  isPermanentlyDisconnected :: bool
  chainId :: jsval
  selectedAddress :: jsval
  events :: "event list"
  logs :: "logEntry list"

text \<open>The state the constructor leaves: \<^verbatim>\<open>_defaultState\<close> and two null public fields.\<close>

definition defaultState :: provider where
  "defaultState =
     \<lparr> accounts = None, isConnected = False, isUnlocked = False, initialized = False,
       isPermanentlyDisconnected = False, chainId = JNull, selectedAddress = JNull,
       events = [], logs = [] \<rparr>"

definition emit :: "event \<Rightarrow> provider \<Rightarrow> provider" where
  "emit e s = s\<lparr>events := events s @ [e]\<rparr>"

definition logIt :: "logEntry \<Rightarrow> provider \<Rightarrow> provider" where
  "logIt l s = s\<lparr>logs := logs s @ [l]\<rparr>"

text \<open>A handler either returns or throws; either way it leaves a state behind.\<close>

datatype exn =
    ProviderAlreadyInitialized
  | TypeErrorNotIterable jsval

datatype outcome =
    Returned provider
  | Threw exn provider

fun stateAfter :: "outcome \<Rightarrow> provider" where
  "stateAfter (Returned s) = s"
| "stateAfter (Threw e s) = s"

fun andThen :: "outcome \<Rightarrow> (provider \<Rightarrow> outcome) \<Rightarrow> outcome" where
  "andThen (Returned s) f = f s"
| "andThen (Threw e s) f = Threw e s"

subsection \<open>Connect and disconnect\<close>

definition handleConnect :: "provider \<Rightarrow> jsval \<Rightarrow> provider" where
  "handleConnect s cid =
     (if \<not> isConnected s
      then logIt (DebugConnected cid) (emit (EvConnect cid) (s\<lparr>isConnected := True\<rparr>))
      else s)"

text \<open>\<^verbatim>\<open>errorMessage || messages.errors.f()\<close> for an optional string.\<close>

fun messageOr :: "string option \<Rightarrow> message \<Rightarrow> message" where
  "messageOr None d = d"
| "messageOr (Some m) d = (if m \<noteq> [] then Text m else d)"

definition handleDisconnect :: "provider \<Rightarrow> bool \<Rightarrow> string option \<Rightarrow> provider" where
  "handleDisconnect s isRecoverable errorMessage =
     (if isConnected s \<or> (\<not> isPermanentlyDisconnected s \<and> \<not> isRecoverable)
      then
        (let s1 = s\<lparr>isConnected := False\<rparr> in
         if isRecoverable
         then
           (let error = EthereumRpcError 1013 (messageOr errorMessage MsgDisconnected)
            in emit (EvDisconnect error) (logIt (DebugError error) s1))
         else
           (let error = EthereumRpcError 1011 (messageOr errorMessage MsgPermanentlyDisconnected);
                s2 = logIt (ErrorError error) s1;
                s3 = s2\<lparr>chainId := JNull, accounts := None, selectedAddress := JNull,
                        isUnlocked := False, isPermanentlyDisconnected := True\<rparr>
            in emit (EvDisconnect error) s3))
      else s)"

subsection \<open>Chain changes\<close>

text \<open>
  \<^verbatim>\<open>isValidChainId\<close> is imported from the \<^verbatim>\<open>utils\<close> module, which is not part of the
  sources at hand: the handler takes it as its first argument. The comparison
  \<^verbatim>\<open>chainId !== this.chainId\<close> is equality of values here.
\<close>

definition handleChainChanged :: "(jsval \<Rightarrow> bool) \<Rightarrow> provider \<Rightarrow> jsval \<Rightarrow> provider" where
  "handleChainChanged isValidChainId s cid =
     (if \<not> isValidChainId cid
      then logIt (ErrorInvalidNetworkParams cid) s
      else
        (let s1 = handleConnect s cid in
         if cid \<noteq> chainId s1
         then
           (let s2 = s1\<lparr>chainId := cid\<rparr>
            in if initialized s2 then emit (EvChainChanged (chainId s2)) s2 else s2)
         else s1))"

text \<open>
  Modelled from the spec: the body of \<^verbatim>\<open>isValidChainId\<close> is missing; the specification
  calls the stored chain id a hex-prefixed string and the check a hex-string validation.
  This validator accepts the strings that start with \<^verbatim>\<open>0x\<close>. It serves as a concrete
  instance where a validator has to be run.
\<close>

fun hexPrefixed :: "jsval \<Rightarrow> bool" where
  "hexPrefixed (JStr s) = (take 2 s = ''0x'')"
| "hexPrefixed v = False"

subsection \<open>Account changes\<close>

text \<open>The \<^verbatim>\<open>for\<close> loop over the elements: true when it meets a non-string and breaks.\<close>

fun foundNonString :: "jsval list \<Rightarrow> bool" where
  "foundNonString [] = False"
| "foundNonString (account # rest) = (if \<not> isString account then True else foundNonString rest)"

text \<open>\<^verbatim>\<open>dequal(this._state.accounts, _accounts)\<close>, on null or a list against a list.\<close>

fun dequal :: "jsval list option \<Rightarrow> jsval list \<Rightarrow> bool" where
  "dequal None ys = False"
| "dequal (Some xs) ys = (xs = ys)"

definition handleAccountsChanged :: "provider \<Rightarrow> jsval \<Rightarrow> bool \<Rightarrow> outcome" where
  "handleAccountsChanged s accs isEthAccounts =
     (let (acc1, s1) =
            (case accs of
               JArr xs \<Rightarrow> (xs, s)
             | _ \<Rightarrow> ([], logIt (ErrorInvalidAccounts accs) s))
      in case iterate accs of
           None \<Rightarrow> Threw (TypeErrorNotIterable accs) s1
         | Some items \<Rightarrow>
             (let (acc2, s2) =
                    (if foundNonString items
                     then ([], logIt (ErrorNonStringAccount accs) s1)
                     else (acc1, s1))
              in if \<not> dequal (accounts s2) acc2
                 then
                   (let s3 = (if isEthAccounts \<and> accounts s2 \<noteq> None
                              then logIt (ErrorEthAccountsUpdated acc2) s2 else s2);
                        s4 = s3\<lparr>accounts := Some acc2\<rparr>;
                        s5 = (if selectedAddress s4 \<noteq> index0 acc2
                              then s4\<lparr>selectedAddress := jsOr (index0 acc2) JNull\<rparr>
                              else s4)
                    in Returned (if initialized s5 then emit (EvAccountsChanged acc2) s5 else s5))
                 else Returned s2))"

subsection \<open>Lock state and initialization\<close>

definition handleUnlockStateChanged :: "provider \<Rightarrow> jsval \<Rightarrow> jsval \<Rightarrow> outcome" where
  "handleUnlockStateChanged s accs unlocked =
     (case unlocked of
        JBool b \<Rightarrow>
          (if b \<noteq> isUnlocked s
           then handleAccountsChanged (s\<lparr>isUnlocked := b\<rparr>) (jsOr accs (JArr [])) False
           else Returned s)
      | _ \<Rightarrow> Returned (logIt ErrorInvalidIsUnlocked s))"

text \<open>The optional argument of the initializer; \<^verbatim>\<open>networkVersion\<close> is passed on and never read.\<close>

record snapshot =
  snapAccounts :: jsval
  snapChainId :: jsval
  snapIsUnlocked :: jsval

definition initializeState :: "(jsval \<Rightarrow> bool) \<Rightarrow> provider \<Rightarrow> snapshot option \<Rightarrow> outcome" where
  "initializeState isValidChainId s initialState =
     (if initialized s then Threw ProviderAlreadyInitialized s
      else
        andThen
          (case initialState of
             None \<Rightarrow> Returned s
           | Some i \<Rightarrow>
               (let s1 = handleConnect s (snapChainId i);
                    s2 = handleChainChanged isValidChainId s1 (snapChainId i)
                in andThen (handleUnlockStateChanged s2 (snapAccounts i) (snapIsUnlocked i))
                     (\<lambda>s3. handleAccountsChanged s3 (snapAccounts i) False)))
          (\<lambda>s4. Returned (emit EvInitialized (s4\<lparr>initialized := True\<rparr>))))"

section \<open>The indirection layer (mutableProxyFactory)\<close>

text \<open>
  Objects that exist once per page and are told apart by identity: the provider object that
  \<^verbatim>\<open>initializeProvider\<close> returns, and the proxy that \<^verbatim>\<open>mutableProxyFactory\<close> builds. Every
  other object is a value.
\<close>

datatype ref =
    Val jsval
  | Facade
  | Indirection

text \<open>
  \<^verbatim>\<open>target instanceof Object\<close>: false for every primitive value, true for the arrays,
  objects and functions of this model, which all inherit from \<^verbatim>\<open>Object.prototype\<close>.
\<close>

fun instanceofObject :: "ref \<Rightarrow> bool" where
  "instanceofObject (Val (JArr xs)) = True"
| "instanceofObject (Val (JObj fs)) = True"
| "instanceofObject (Val (JFun f)) = True"
| "instanceofObject (Val v) = False"
| "instanceofObject r = True"

text \<open>
  The closure variables of the factory. \<^verbatim>\<open>setHandler\<close> is only ever called by the factory
  itself, with \<^verbatim>\<open>Reflect\<close>, whose methods are not enumerable: its loop over
  \<^verbatim>\<open>Object.keys(handler)\<close> checks nothing and the handler is stored. \<^verbatim>\<open>proxyTarget\<close> is
  the object the proxy was created around; it is what fixes the proxy.
\<close>

datatype handlerObj = HandlerUndefined | HandlerReflect

record indirection =
  mutableTarget :: ref
  mutableHandler :: handlerObj
  proxyTarget :: ref

datatype layerError =
    TargetNotObject ref
  | NotAFunction
  | PropertyOfPrimitive

definition setTarget :: "ref \<Rightarrow> indirection \<Rightarrow> layerError + indirection" where
  "setTarget target l =
     (if \<not> instanceofObject target then Inl (TargetNotObject target)
      else Inr (l\<lparr>mutableTarget := target\<rparr>))"

definition setHandlerReflect :: "indirection \<Rightarrow> indirection" where
  "setHandlerReflect l = l\<lparr>mutableHandler := HandlerReflect\<rparr>"

text \<open>Both closure variables are declared without a value.\<close>

definition closureVariables :: indirection where
  "closureVariables =
     \<lparr> mutableTarget = Val JUndefined, mutableHandler = HandlerUndefined,
       proxyTarget = Val JUndefined \<rparr>"

text \<open>
  \<^verbatim>\<open>mutableProxyFactory()\<close>: \<^verbatim>\<open>setTarget({})\<close>, \<^verbatim>\<open>setHandler(Reflect)\<close>, then
  \<^verbatim>\<open>new Proxy(mutableTarget, handler)\<close>. (The compiled file under \<^verbatim>\<open>dist\<close> starts from an
  empty function instead of an empty object.)
\<close>

definition mutableProxyFactory :: indirection where
  "mutableProxyFactory =
     (case setTarget (Val (JObj [])) closureVariables of
        Inl e \<Rightarrow> closureVariables
      | Inr l \<Rightarrow> (let l1 = setHandlerReflect l in l1\<lparr>proxyTarget := mutableTarget l1\<rparr>))"

definition reflectKeys :: "string list" where
  "reflectKeys =
     [''apply'', ''construct'', ''defineProperty'', ''deleteProperty'', ''get'',
      ''getOwnPropertyDescriptor'', ''getPrototypeOf'', ''has'', ''isExtensible'', ''ownKeys'',
      ''preventExtensions'', ''set'', ''setPrototypeOf'']"

text \<open>
  A trapped operation. The engine asks the handler for the trap named \<^verbatim>\<open>property\<close> and
  calls it with the proxy's own target first; the function it gets calls
  \<^verbatim>\<open>mutableHandler[property]\<close> on \<^verbatim>\<open>mutableTarget\<close> followed by \<^verbatim>\<open>args.slice(1)\<close>.
  The result is the call of the \<^verbatim>\<open>Reflect\<close> method that is made.
\<close>

datatype reflectCall = ReflectCall string "ref list"

definition trapCall :: "indirection \<Rightarrow> string \<Rightarrow> ref list \<Rightarrow> layerError + reflectCall" where
  "trapCall l property args =
     (case mutableHandler l of
        HandlerUndefined \<Rightarrow> Inl NotAFunction
      | HandlerReflect \<Rightarrow>
          (if property \<in> set reflectKeys
           then Inr (ReflectCall property (mutableTarget l # drop 1 args))
           else Inl NotAFunction))"

text \<open>
  The operation as it runs: \<^verbatim>\<open>run\<close> is what the \<^verbatim>\<open>Reflect\<close> method does with its
  arguments. It may execute code of the page (a getter, a called method) that assigns a new
  delegate while the operation is under way, so it returns the layer it leaves.
\<close>

definition performTrap ::
  "(reflectCall \<Rightarrow> indirection \<Rightarrow> 'r \<times> indirection) \<Rightarrow> indirection \<Rightarrow> string \<Rightarrow> ref list
     \<Rightarrow> layerError + ('r \<times> indirection)" where
  "performTrap run l property args =
     (case trapCall l property args of
        Inl e \<Rightarrow> Inl e
      | Inr c \<Rightarrow> Inr (run c l))"

section \<open>The page: global slot, installer and dispatcher\<close>

datatype setter = NoSetter | MpfSetTarget

text \<open>
  One page with one provider: the provider's state, its two added private fields, the
  factory's closure, the global \<^verbatim>\<open>window.ethereum\<close> and the installer's counter.
\<close>

record page =
  providerState :: provider
  originalMetaMask :: ref
  waymontTargetSetter :: setter
  layer :: indirection
  windowEthereum :: ref
  ethereumWritable :: bool
  count :: nat
  intervalActive :: bool

definition initialPage :: page where
  "initialPage =
     \<lparr> providerState = defaultState, originalMetaMask = Val JUndefined,
       waymontTargetSetter = NoSetter,
       layer = closureVariables,
       windowEthereum = Val JUndefined, ethereumWritable = True, count = 0,
       intervalActive = True \<rparr>"

subsection \<open>setGlobalProvider\<close>

text \<open>
  One run of the interval callback. \<^verbatim>\<open>found\<close> is the value other code of the page has left
  in \<^verbatim>\<open>window.ethereum\<close> by the time the callback runs (undefined when there is none).
  \<^verbatim>\<open>setTarget(providerInstance)\<close> cannot throw: the provider is an object.
\<close>

definition pollTick :: "jsval \<Rightarrow> page \<Rightarrow> page" where
  "pollTick found w0 =
     (let w = w0\<lparr>windowEthereum := Val found\<rparr>;
          w1 = (if truthy found \<and> truthy (getProp found ''isMetaMask'')
                then w\<lparr> originalMetaMask := windowEthereum w,
                        waymontTargetSetter := MpfSetTarget,
                        layer := mutableProxyFactory\<lparr>mutableTarget := Facade\<rparr>,
                        windowEthereum := Indirection,
                        intervalActive := False \<rparr>
                else w);
          w2 = w1\<lparr>count := count w1 + 1\<rparr>
      in if count w2 \<ge> 10
         then w2\<lparr>windowEthereum := Facade, ethereumWritable := False, intervalActive := False\<rparr>
         else w2)"

text \<open>The callback runs as long as the interval has not been cleared.\<close>

fun poll :: "jsval list \<Rightarrow> page \<Rightarrow> page" where
  "poll [] w = w"
| "poll (found # rest) w = (if intervalActive w then poll rest (pollTick found w) else w)"

subsection \<open>The dispatcher\<close>

datatype callbackKind = PlainCallback | AccountsCallback bool

datatype rpcOutcome =
    ForwardedTo ref jsval jsval
  | ForwardFailed
  | EngineHandle jsval callbackKind
  | RpcThrew layerError

text \<open>
  \<^verbatim>\<open>window.ethereum.request({ method, params })\<close> inside the \<^verbatim>\<open>try\<close> block. Through the
  proxy the \<^verbatim>\<open>get\<close> trap hands out the delegate's \<^verbatim>\<open>request\<close>, so the call is received by
  the delegate; otherwise by the object in the slot. An object without a \<^verbatim>\<open>request\<close>
  function makes the call throw, which the \<^verbatim>\<open>catch\<close> turns into \<^verbatim>\<open>cb(err)\<close>.
\<close>

fun hasRequest :: "ref \<Rightarrow> bool" where
  "hasRequest (Val v) = (case getProp v ''request'' of JFun f \<Rightarrow> True | _ \<Rightarrow> False)"
| "hasRequest Facade = True"
| "hasRequest Indirection = False"

definition windowEthereumRequest :: "page \<Rightarrow> jsval \<Rightarrow> jsval \<Rightarrow> rpcOutcome" where
  "windowEthereumRequest w method params =
     (let receiver =
            (case windowEthereum w of
               Indirection \<Rightarrow>
                 (case trapCall (layer w) ''get''
                         [proxyTarget (layer w), Val (JStr ''request''), Indirection] of
                    Inr (ReflectCall m (delegate # rest)) \<Rightarrow> Some delegate
                  | _ \<Rightarrow> None)
             | r \<Rightarrow> Some r)
      in case receiver of
           None \<Rightarrow> ForwardFailed
         | Some r \<Rightarrow> if hasRequest r then ForwardedTo r method params else ForwardFailed)"

text \<open>\<^verbatim>\<open>payload.jsonrpc = '2.0'\<close> on a plain object (a function token keeps no properties).\<close>

fun setProp :: "jsval \<Rightarrow> string \<Rightarrow> jsval \<Rightarrow> jsval" where
  "setProp (JObj fs) k v = JObj (AList.update k v fs)"
| "setProp o' k v = o'"

text \<open>
  Reading a property of undefined or null throws, and so does, in strict code, assigning a
  property of any other primitive value.
\<close>

fun isPrimitive :: "jsval \<Rightarrow> bool" where
  "isPrimitive (JArr xs) = False"
| "isPrimitive (JObj fs) = False"
| "isPrimitive (JFun f) = False"
| "isPrimitive v = True"

text \<open>
  \<^verbatim>\<open>_rpcRequest(payload, callback)\<close>. The source awaits the selector's promise inside the
  first condition; \<^verbatim>\<open>confirmWaymont\<close> is the value that promise resolves to (true for
  this provider, false for the other one), and it is only consulted when the two tests
  before it hold. The outcome says which backend is handed the call: the object that
  receives \<^verbatim>\<open>window.ethereum.request\<close>, or the provider's own engine together with the
  callback it is given (the caller's, or the one that first feeds the accounts handler).
  A primitive payload ends in a TypeError on every path, at the first read or at the
  assignment of \<^verbatim>\<open>jsonrpc\<close>.
\<close>

definition rpcRequest :: "page \<Rightarrow> bool \<Rightarrow> jsval \<Rightarrow> rpcOutcome \<times> page" where
  "rpcRequest w confirmWaymont payload =
     (if isPrimitive payload then (RpcThrew PropertyOfPrimitive, w)
      else if originalMetaMask w \<noteq> Val JUndefined
         \<and> getProp payload ''method'' = JStr ''eth_requestAccounts''
         \<and> \<not> confirmWaymont
      then
        (case waymontTargetSetter w of
           NoSetter \<Rightarrow> (RpcThrew NotAFunction, w)
         | MpfSetTarget \<Rightarrow>
             (case setTarget (originalMetaMask w) (layer w) of
                Inl e \<Rightarrow> (RpcThrew e, w)
              | Inr l \<Rightarrow>
                  (let w1 = w\<lparr>layer := l\<rparr>
                   in (windowEthereumRequest w1 (getProp payload ''method'')
                         (getProp payload ''params''), w1))))
      else if \<not> isArray payload
      then
        (let payload1 = (if \<not> truthy (getProp payload ''jsonrpc'')
                         then setProp payload ''jsonrpc'' (JStr ''2.0'') else payload)
         in if getProp payload1 ''method'' = JStr ''eth_accounts''
               \<or> getProp payload1 ''method'' = JStr ''eth_requestAccounts''
            then (EngineHandle payload1
                    (AccountsCallback (getProp payload1 ''method'' = JStr ''eth_accounts'')), w)
            else (EngineHandle payload1 PlainCallback, w))
      else (EngineHandle payload PlainCallback, w))"

subsection \<open>request\<close>

datatype requestMessage = InvalidRequestArgs | InvalidRequestMethod | InvalidRequestParams

datatype reply =
    RejectedInvalidRequest requestMessage jsval
  | Dispatched rpcOutcome

definition request :: "page \<Rightarrow> bool \<Rightarrow> jsval \<Rightarrow> reply \<times> page" where
  "request w confirmWaymont args =
     (if \<not> truthy args \<or> \<not> typeofObject args \<or> isArray args
      then (RejectedInvalidRequest InvalidRequestArgs args, w)
      else
        (let method = getProp args ''method''; params = getProp args ''params''
         in if \<not> isString method \<or> method = JStr []
            then (RejectedInvalidRequest InvalidRequestMethod args, w)
            else if params \<noteq> JUndefined \<and> \<not> isArray params
                    \<and> (\<not> typeofObject params \<or> params = JNull)
            then (RejectedInvalidRequest InvalidRequestParams args, w)
            else
              (let (r, w1) = rpcRequest w confirmWaymont
                               (JObj [(''method'', method), (''params'', params)])
               in (Dispatched r, w1))))"

section \<open>Deleting a property of the provider object\<close>

text \<open>
  \<^verbatim>\<open>initializeProvider\<close> returns \<^verbatim>\<open>new Proxy(provider, { deleteProperty: () => true })\<close>.
  An object is its own properties, each configurable or not, and its extensibility.
\<close>

record jsProperty =
  propValue :: jsval
  propConfigurable :: bool

record jsObject =
  ownProps :: "(string \<times> jsProperty) list"
  extensible :: bool

datatype deleteResult = DeleteReturned bool | DeleteTypeError

definition deletePropertyTrap :: "jsObject \<Rightarrow> string \<Rightarrow> bool" where
  "deletePropertyTrap target key = True"

text \<open>
  \<^verbatim>\<open>delete proxiedProvider[key]\<close>: the proxy calls the trap; when the trap reports success
  the language checks the report against the target, and refuses it with a TypeError for a
  property that the target has and that cannot be deleted. The target is never touched.
\<close>

definition proxyDelete :: "jsObject \<Rightarrow> string \<Rightarrow> deleteResult \<times> jsObject" where
  "proxyDelete target key =
     (if \<not> deletePropertyTrap target key then (DeleteReturned False, target)
      else
        (case map_of (ownProps target) key of
           None \<Rightarrow> (DeleteReturned True, target)
         | Some d \<Rightarrow>
             (if \<not> propConfigurable d then (DeleteTypeError, target)
              else if \<not> extensible target then (DeleteTypeError, target)
              else (DeleteReturned True, target))))"

section \<open>Notions used to state the properties\<close>

text \<open>
  The sanitized accounts list in the specification's words: a value that is not an array,
  or an array with an element that is not a string, counts as the empty list.
\<close>

definition sanitized :: "jsval \<Rightarrow> jsval list" where
  "sanitized a = (case a of JArr xs \<Rightarrow> if list_all isString xs then xs else [] | _ \<Rightarrow> [])"

text \<open>The events a page can subscribe to: all but the internal \<^verbatim>\<open>_initialized\<close> signal.\<close>

definition publicEvents :: "provider \<Rightarrow> event list" where
  "publicEvents s = filter (\<lambda>e. e \<noteq> EvInitialized) (events s)"

text \<open>The snapshot of the first end-to-end scenario.\<close>

definition scenarioSnapshot :: snapshot where
  "scenarioSnapshot =
     \<lparr> snapAccounts = JArr [JStr ''0xabc''], snapChainId = JStr ''0x1'',
       snapIsUnlocked = JBool True \<rparr>"

text \<open>A provider that was initialized with that snapshot and then lost its connection for good.\<close>

definition disconnectedState :: provider where
  "disconnectedState =
     handleDisconnect
       (stateAfter (initializeState hexPrefixed defaultState (Some scenarioSnapshot))) False None"

text \<open>Calls of the connect handler and of the chain-changed handler, in any order.\<close>

datatype call = CallConnect jsval | CallChainChanged jsval

fun applyCall :: "(jsval \<Rightarrow> bool) \<Rightarrow> provider \<Rightarrow> call \<Rightarrow> provider" where
  "applyCall isValidChainId s (CallConnect cid) = handleConnect s cid"
| "applyCall isValidChainId s (CallChainChanged cid) = handleChainChanged isValidChainId s cid"

definition runCalls :: "(jsval \<Rightarrow> bool) \<Rightarrow> provider \<Rightarrow> call list \<Rightarrow> provider" where
  "runCalls isValidChainId s cs = foldl (applyCall isValidChainId) s cs"

text \<open>
  The first argument of the initializer is absent, or its accounts field can be iterated
  (every array can, so every snapshot of the declared type).
\<close>

definition snapshotIterable :: "snapshot option \<Rightarrow> bool" where
  "snapshotIterable i = (case i of None \<Rightarrow> True | Some x \<Rightarrow> iterate (snapAccounts x) \<noteq> None)"

text \<open>
  The rejection rule of the request validator in the specification's words: the argument
  is not a plain object; or \<^verbatim>\<open>method\<close> is missing, not a string, or empty; or
  \<^verbatim>\<open>params\<close> is present but neither an array nor a non-null object. A plain object is
  an object that is neither null, nor an array, nor a function; a field is missing, or not
  present, when reading it gives undefined.
\<close>

fun isPlainObject :: "jsval \<Rightarrow> bool" where
  "isPlainObject (JObj fs) = True"
| "isPlainObject v = False"

definition isNonNullObject :: "jsval \<Rightarrow> bool" where
  "isNonNullObject v = (typeofObject v \<and> v \<noteq> JNull)"

definition specInvalidRequest :: "jsval \<Rightarrow> bool" where
  "specInvalidRequest args =
     (\<not> isPlainObject args
      \<or> getProp args ''method'' = JUndefined
      \<or> \<not> isString (getProp args ''method'')
      \<or> getProp args ''method'' = JStr []
      \<or> (getProp args ''params'' \<noteq> JUndefined
          \<and> \<not> isArray (getProp args ''params'')
          \<and> \<not> isNonNullObject (getProp args ''params'')))"

text \<open>
  A trapped operation during which code of the page assigns the delegate \<^verbatim>\<open>d\<close>: the
  operation's result is computed by \<^verbatim>\<open>body\<close> from the call that was made.
\<close>

definition reassigningDuring ::
  "ref \<Rightarrow> (reflectCall \<Rightarrow> 'r) \<Rightarrow> reflectCall \<Rightarrow> indirection \<Rightarrow> 'r \<times> indirection" where
  "reassigningDuring d body c l =
     (case setTarget d l of Inl e \<Rightarrow> (body c, l) | Inr l' \<Rightarrow> (body c, l'))"

text \<open>
  A pre-existing provider, and the page on which it appears just before the tenth run of
  the installer's callback, after nine runs that found nothing.
\<close>

definition metaMask :: jsval where
  "metaMask = JObj [(''isMetaMask'', JBool True), (''request'', JFun 0)]"

definition latePage :: page where
  "latePage =
     poll [JUndefined, JUndefined, JUndefined, JUndefined, JUndefined, JUndefined, JUndefined,
           JUndefined, JUndefined, metaMask] initialPage"

definition requestAccounts :: jsval where
  "requestAccounts = JObj [(''method'', JStr ''eth_requestAccounts''), (''params'', JArr [])]"

text \<open>An object with the two public fields of a provider, created by assignment.\<close>

definition sampleProvider :: jsObject where
  "sampleProvider =
     \<lparr> ownProps = [(''chainId'', \<lparr>propValue = JNull, propConfigurable = True\<rparr>),
                    (''selectedAddress'', \<lparr>propValue = JNull, propConfigurable = True\<rparr>)],
       extensible = True \<rparr>"

text \<open>The provider after the scenario's initialization: initialized, one account stored.\<close>

definition scenarioState :: provider where
  "scenarioState =
     stateAfter (initializeState hexPrefixed defaultState (Some scenarioSnapshot))"

text \<open>A snapshot without its accounts field, \<^verbatim>\<open>{chainId: "0x1", isUnlocked: true}\<close>.\<close>

definition partialSnapshot :: snapshot where
  "partialSnapshot =
     \<lparr> snapAccounts = JUndefined, snapChainId = JStr ''0x1'', snapIsUnlocked = JBool True \<rparr>"

text \<open>The public field \<^verbatim>\<open>selectedAddress\<close> mirrors the stored accounts.\<close>

definition mirrored :: "provider \<Rightarrow> bool" where
  "mirrored s =
     (selectedAddress s = (case accounts s of None \<Rightarrow> JNull | Some xs \<Rightarrow> jsOr (index0 xs) JNull))"

section \<open>Properties of the state machine\<close>

subsection \<open>What each handler leaves alone\<close>

lemma handleConnect_frame:
  "isPermanentlyDisconnected (handleConnect s c) = isPermanentlyDisconnected s"
  "accounts (handleConnect s c) = accounts s"
  "selectedAddress (handleConnect s c) = selectedAddress s"
  "isUnlocked (handleConnect s c) = isUnlocked s"
  "initialized (handleConnect s c) = initialized s"
  "chainId (handleConnect s c) = chainId s"
  "isConnected (handleConnect s c)"
  by (simp_all add: handleConnect_def logIt_def emit_def)

lemma handleChainChanged_frame:
  "isPermanentlyDisconnected (handleChainChanged v s c) = isPermanentlyDisconnected s"
  "accounts (handleChainChanged v s c) = accounts s"
  "selectedAddress (handleChainChanged v s c) = selectedAddress s"
  "isUnlocked (handleChainChanged v s c) = isUnlocked s"
  "initialized (handleChainChanged v s c) = initialized s"
  by (simp_all add: handleChainChanged_def Let_def handleConnect_frame logIt_def emit_def)

lemma handleChainChanged_valid:
  "v c \<Longrightarrow> isConnected (handleChainChanged v s c) \<and> chainId (handleChainChanged v s c) = c"
  by (simp add: handleChainChanged_def Let_def handleConnect_frame emit_def)

lemma applyCall_frame:
  "isPermanentlyDisconnected (applyCall v s c) = isPermanentlyDisconnected s"
  "accounts (applyCall v s c) = accounts s"
  "selectedAddress (applyCall v s c) = selectedAddress s"
  "isUnlocked (applyCall v s c) = isUnlocked s"
  by (cases c; simp add: handleConnect_frame handleChainChanged_frame)+

lemma runCalls_frame:
  "isPermanentlyDisconnected (runCalls v s cs) = isPermanentlyDisconnected s \<and>
   accounts (runCalls v s cs) = accounts s \<and>
   selectedAddress (runCalls v s cs) = selectedAddress s \<and>
   isUnlocked (runCalls v s cs) = isUnlocked s"
  unfolding runCalls_def
  by (induction cs arbitrary: s) (simp_all add: applyCall_frame)

subsection \<open>The scenario, step by step\<close>

lemma initializeState_scenario:
  "initializeState v defaultState (Some scenarioSnapshot) =
     Returned \<lparr> accounts = Some [JStr ''0xabc''], isConnected = True, isUnlocked = True,
       initialized = True, isPermanentlyDisconnected = False,
       chainId = (if v (JStr ''0x1'') then JStr ''0x1'' else JNull),
       selectedAddress = JStr ''0xabc'',
       events = [EvConnect (JStr ''0x1''), EvInitialized],
       logs = (if v (JStr ''0x1'') then [DebugConnected (JStr ''0x1'')]
               else [DebugConnected (JStr ''0x1''), ErrorInvalidNetworkParams (JStr ''0x1'')]) \<rparr>"
  by (simp add: initializeState_def defaultState_def scenarioSnapshot_def handleConnect_def
      handleChainChanged_def handleUnlockStateChanged_def handleAccountsChanged_def
      emit_def logIt_def jsOr_def Let_def)

lemma disconnectedState_fields:
  "isPermanentlyDisconnected disconnectedState \<and> \<not> isConnected disconnectedState \<and>
   chainId disconnectedState = JNull \<and> accounts disconnectedState = None"
  by (simp add: disconnectedState_def initializeState_scenario handleDisconnect_def Let_def
      emit_def logIt_def)

subsection \<open>The accounts handler on what can be iterated\<close>

lemma foundNonString_iff: "foundNonString xs = (\<not> list_all isString xs)"
  by (induction xs) auto

lemma dequal_iff: "dequal a ys = (a = Some ys)"
  by (cases a) auto

lemma handleAccountsChanged_returns:
  assumes "iterate a = Some xs"
  shows "\<exists>s'. handleAccountsChanged s a e = Returned s' \<and> initialized s' = initialized s"
  using assms
  by (auto simp: handleAccountsChanged_def Let_def emit_def logIt_def
      split: jsval.splits prod.splits)

lemma handleUnlockStateChanged_returns:
  assumes "iterate a \<noteq> None"
  shows "\<exists>s'. handleUnlockStateChanged s a u = Returned s' \<and> initialized s' = initialized s"
proof -
  have "\<exists>xs. iterate (jsOr a (JArr [])) = Some xs"
    using assms by (cases "truthy a") (auto simp: jsOr_def)
  then obtain xs where xs: "iterate (jsOr a (JArr [])) = Some xs" ..
  show ?thesis
  proof (cases u)
    case (JBool b)
    obtain s' where
      "handleAccountsChanged (s\<lparr>isUnlocked := b\<rparr>) (jsOr a (JArr [])) False = Returned s'"
      and "initialized s' = initialized (s\<lparr>isUnlocked := b\<rparr>)"
      using handleAccountsChanged_returns [OF xs] by blast
    with JBool show ?thesis by (auto simp: handleUnlockStateChanged_def)
  qed (simp_all add: handleUnlockStateChanged_def logIt_def)
qed

lemma initializeState_initialized:
  assumes "snapshotIterable a"
  shows "initialized (stateAfter (initializeState v s a))"
proof (cases "initialized s")
  case True
  then show ?thesis by (simp add: initializeState_def)
next
  case notYet: False
  show ?thesis
  proof (cases a)
    case None
    with notYet show ?thesis by (simp add: initializeState_def emit_def)
  next
    case (Some i)
    with assms obtain xs where xs: "iterate (snapAccounts i) = Some xs"
      by (auto simp: snapshotIterable_def)
    define s2 where
      "s2 = handleChainChanged v (handleConnect s (snapChainId i)) (snapChainId i)"
    obtain s3 where
      s3: "handleUnlockStateChanged s2 (snapAccounts i) (snapIsUnlocked i) = Returned s3"
      using handleUnlockStateChanged_returns [of "snapAccounts i" s2] xs by auto
    obtain s4 where s4: "handleAccountsChanged s3 (snapAccounts i) False = Returned s4"
      using handleAccountsChanged_returns [OF xs] by blast
    show ?thesis
      using notYet Some s3 s4
      by (simp add: initializeState_def Let_def s2_def emit_def)
  qed
qed

lemma index0_strings: "list_all isString xs \<Longrightarrow> index0 xs = JUndefined \<or> isString (index0 xs)"
  by (cases xs) auto

lemma sanitized_index0: "index0 (sanitized a) = JUndefined \<or> isString (index0 (sanitized a))"
  using index0_strings by (cases a) (auto simp: sanitized_def)

lemma handleAccountsChanged_result:
  assumes "iterate a \<noteq> None"
  shows "\<exists>s'. handleAccountsChanged s a e = Returned s' \<and>
           accounts s' = Some (sanitized a) \<and>
           selectedAddress s' =
             (if accounts s = Some (sanitized a) \<or> selectedAddress s = index0 (sanitized a)
              then selectedAddress s else jsOr (index0 (sanitized a)) JNull)"
  using assms
  by (cases a)
     (auto simp: handleAccountsChanged_def Let_def emit_def logIt_def sanitized_def
        foundNonString_iff dequal_iff list_all_iff)

text \<open>
  On an argument that can be iterated, and from a state in which the selected address
  mirrors the accounts, the handler stores the sanitized list and leaves the selected
  address at its first element, or at null when there is none or it is the empty string.
\<close>

lemma handleAccountsChanged_mirrored:
  assumes "iterate a \<noteq> None" and "mirrored s"
  shows "\<exists>s'. handleAccountsChanged s a e = Returned s' \<and>
           accounts s' = Some (sanitized a) \<and>
           selectedAddress s' = jsOr (index0 (sanitized a)) JNull"
proof -
  obtain s' where r: "handleAccountsChanged s a e = Returned s'"
    and acc: "accounts s' = Some (sanitized a)"
    and sel: "selectedAddress s' =
             (if accounts s = Some (sanitized a) \<or> selectedAddress s = index0 (sanitized a)
              then selectedAddress s else jsOr (index0 (sanitized a)) JNull)"
    using handleAccountsChanged_result [OF assms(1)] by blast
  have "selectedAddress s' = jsOr (index0 (sanitized a)) JNull"
  proof (cases "accounts s = Some (sanitized a)")
    case True
    with sel assms(2) show ?thesis by (simp add: mirrored_def)
  next
    case differs: False
    show ?thesis
    proof (cases "selectedAddress s = index0 (sanitized a)")
      case False
      with sel differs show ?thesis by simp
    next
      case True
      have "selectedAddress s = JNull \<or> truthy (selectedAddress s)"
        using assms(2) by (auto simp: mirrored_def jsOr_def split: option.splits)
      moreover have "index0 (sanitized a) \<noteq> JNull"
        using sanitized_index0 [of a] by auto
      ultimately have "truthy (index0 (sanitized a))" using True by auto
      with sel True show ?thesis by (simp add: jsOr_def)
    qed
  qed
  with r acc show ?thesis by blast
qed

text \<open>On every other argument the handler throws, having logged the invalid parameter.\<close>

lemma handleAccountsChanged_not_iterable:
  assumes "iterate a = None"
  shows "handleAccountsChanged s a e =
           Threw (TypeErrorNotIterable a) (logIt (ErrorInvalidAccounts a) s)"
  using assms by (cases a) (simp_all add: handleAccountsChanged_def)

text \<open>
  On an argument that can be iterated the handler returns, and it emits
  \<^verbatim>\<open>accountsChanged\<close>, once and with the sanitized list, exactly when \<^verbatim>\<open>initialized\<close> is
  true and the sanitized list differs from the stored accounts.
\<close>

lemma accountsChanged_emitted_iff:
  assumes "iterate a \<noteq> None"
  shows "\<exists>s'. handleAccountsChanged s a e = Returned s' \<and>
           events s' = (if initialized s \<and> accounts s \<noteq> Some (sanitized a)
                        then events s @ [EvAccountsChanged (sanitized a)] else events s)"
  using assms
  by (cases a)
     (auto simp: handleAccountsChanged_def Let_def emit_def logIt_def sanitized_def
        foundNonString_iff dequal_iff list_all_iff)

subsection \<open>Initializing twice\<close>

text \<open>
  When the first argument is absent, or its accounts can be iterated, the first call ends
  with the flag set and a second call throws, whatever its argument.
\<close>

lemma second_initializeState_throws:
  assumes "snapshotIterable a"
  shows "initializeState v2 (stateAfter (initializeState v1 s a)) b =
           Threw ProviderAlreadyInitialized (stateAfter (initializeState v1 s a))"
  using initializeState_initialized [OF assms] by (simp add: initializeState_def)

text \<open>The first call on the snapshot without accounts, step by step.\<close>

lemma initializeState_partial:
  "initializeState hexPrefixed defaultState (Some partialSnapshot) =
     Threw (TypeErrorNotIterable JUndefined)
       \<lparr> accounts = Some [], isConnected = True, isUnlocked = True,
         initialized = False, isPermanentlyDisconnected = False,
         chainId = JStr ''0x1'', selectedAddress = JNull,
         events = [EvConnect (JStr ''0x1'')],
         logs = [DebugConnected (JStr ''0x1''), ErrorInvalidAccounts JUndefined] \<rparr>"
  by (simp add: initializeState_def defaultState_def partialSnapshot_def handleConnect_def
      handleChainChanged_def handleUnlockStateChanged_def handleAccountsChanged_def
      emit_def logIt_def jsOr_def Let_def)

lemma scenarioState_fields:
  "initialized scenarioState \<and> accounts scenarioState = Some [JStr ''0xabc''] \<and>
   events scenarioState = [EvConnect (JStr ''0x1''), EvInitialized]"
  by (simp add: scenarioState_def initializeState_scenario)

subsection \<open>The claims on the state machine\<close>

text \<open>
  Claim C1 does not hold as stated. The connect handler tests only \<^verbatim>\<open>isConnected\<close>, and
  nothing but the disconnect handler reads \<^verbatim>\<open>isPermanentlyDisconnected\<close>: on a provider
  that has processed a non-recoverable disconnect, a connect call sets \<^verbatim>\<open>isConnected\<close>
  again, and a chain-changed call with a valid id does so too and stores the id.
\<close>

theorem permanentlyDisconnected_reconnects:
  "isPermanentlyDisconnected disconnectedState \<and> \<not> isConnected disconnectedState \<and>
   chainId disconnectedState = JNull \<and>
   isConnected (handleConnect disconnectedState (JStr ''0x1'')) \<and>
   isConnected (handleChainChanged hexPrefixed disconnectedState (JStr ''0x1'')) \<and>
   chainId (handleChainChanged hexPrefixed disconnectedState (JStr ''0x1'')) = JStr ''0x1''"
  using disconnectedState_fields
  by (simp add: handleConnect_frame handleChainChanged_valid)

text \<open>
  Claim C1, amended: on a provider in which \<^verbatim>\<open>isPermanentlyDisconnected\<close> is true, every
  sequence of calls of the connect handler and of the chain-changed handler keeps
  \<^verbatim>\<open>isPermanentlyDisconnected\<close> true and leaves \<^verbatim>\<open>accounts\<close>, \<^verbatim>\<open>selectedAddress\<close> and
  \<^verbatim>\<open>isUnlocked\<close> as they were; the connect handler leaves \<^verbatim>\<open>isConnected\<close> true, and the
  chain-changed handler, given an id that passes validation, leaves \<^verbatim>\<open>isConnected\<close> true
  and that id stored.
\<close>

theorem permanentlyDisconnected_calls:
  assumes "isPermanentlyDisconnected s"
  shows "isPermanentlyDisconnected (runCalls v s cs) \<and>
         accounts (runCalls v s cs) = accounts s \<and>
         selectedAddress (runCalls v s cs) = selectedAddress s \<and>
         isUnlocked (runCalls v s cs) = isUnlocked s \<and>
         isConnected (handleConnect s cid) \<and>
         (v cid \<longrightarrow> isConnected (handleChainChanged v s cid) \<and>
                    chainId (handleChainChanged v s cid) = cid)"
  using assms runCalls_frame [of v s cs]
  by (simp add: handleConnect_frame handleChainChanged_valid)

theorem permanentlyDisconnected_calls_witness:
  "isPermanentlyDisconnected disconnectedState \<and> hexPrefixed (JStr ''0x1'') \<and>
   isPermanentlyDisconnected
     (runCalls hexPrefixed disconnectedState
        [CallConnect (JStr ''0x1''), CallChainChanged (JStr ''0x5'')]) \<and>
   accounts
     (runCalls hexPrefixed disconnectedState
        [CallConnect (JStr ''0x1''), CallChainChanged (JStr ''0x5'')]) = None \<and>
   isConnected (handleConnect disconnectedState (JStr ''0x1'')) \<and>
   chainId (handleChainChanged hexPrefixed disconnectedState (JStr ''0x1'')) = JStr ''0x1''"
proof -
  have h: "isPermanentlyDisconnected disconnectedState"
    using disconnectedState_fields by simp
  show ?thesis
    using h disconnectedState_fields
      permanentlyDisconnected_calls [OF h, of hexPrefixed
        "[CallConnect (JStr ''0x1''), CallChainChanged (JStr ''0x5'')]" "JStr ''0x1''"]
    by simp
qed

text \<open>
  Claim C2 does not hold as stated: during the one initializing call the flag
  \<^verbatim>\<open>initialized\<close> is still false, so the chain-changed and the accounts-changed handlers
  store their values without emitting. The public events of the scenario are not the three
  the claim lists.
\<close>

theorem initialize_scenario_events_differ:
  "publicEvents (stateAfter (initializeState hexPrefixed defaultState (Some scenarioSnapshot)))
     \<noteq> [EvConnect (JStr ''0x1''), EvChainChanged (JStr ''0x1''),
         EvAccountsChanged [JStr ''0xabc'']]"
  by (simp add: initializeState_scenario publicEvents_def)

text \<open>
  Claim C2, amended: for a fresh provider, the initializer called with the snapshot
  \<^verbatim>\<open>{accounts: ["0xabc"], chainId: "0x1", isUnlocked: true}\<close> returns, emits exactly one
  public event, \<^verbatim>\<open>connect{chainId: "0x1"}\<close>, followed by the internal \<^verbatim>\<open>_initialized\<close>
  signal, and leaves \<^verbatim>\<open>selectedAddress\<close> equal to \<^verbatim>\<open>"0xabc"\<close>, the accounts stored and the
  flag set; no \<^verbatim>\<open>chainChanged\<close> and no \<^verbatim>\<open>accountsChanged\<close> is emitted. This holds whatever
  the chain id validator answers.
\<close>

theorem initialize_scenario:
  "\<exists>s'. initializeState v defaultState (Some scenarioSnapshot) = Returned s' \<and>
        events s' = [EvConnect (JStr ''0x1''), EvInitialized] \<and>
        publicEvents s' = [EvConnect (JStr ''0x1'')] \<and>
        selectedAddress s' = JStr ''0xabc'' \<and>
        accounts s' = Some [JStr ''0xabc''] \<and>
        initialized s'"
  by (simp add: initializeState_scenario publicEvents_def)

text \<open>
  Claim C3 is what the handler is written to do, and the code misses it. A value that is
  not an array is logged and replaced by the empty list, but the loop that follows iterates
  the argument itself and not its replacement: for the object \<^verbatim>\<open>{}\<close> and for null, as for
  every value that cannot be iterated, the handler throws a TypeError. And for the
  one-element list holding the empty string, \<^verbatim>\<open>_accounts[0] || null\<close> leaves
  \<^verbatim>\<open>selectedAddress\<close> null, not the first element.
\<close>

theorem handleAccountsChanged_throws:
  "handleAccountsChanged s (JObj []) isEthAccounts =
     Threw (TypeErrorNotIterable (JObj [])) (logIt (ErrorInvalidAccounts (JObj [])) s) \<and>
   handleAccountsChanged s JNull isEthAccounts =
     Threw (TypeErrorNotIterable JNull) (logIt (ErrorInvalidAccounts JNull) s) \<and>
   sanitized (JArr [JStr '''']) = [JStr ''''] \<and>
   selectedAddress (stateAfter (handleAccountsChanged defaultState (JArr [JStr '''']) False))
     = JNull"
  by (simp add: handleAccountsChanged_def sanitized_def defaultState_def jsOr_def)

text \<open>
  Claim C4 is what the handler is written to do, and the code misses it where it throws.
  On an initialized provider that stores \<^verbatim>\<open>["0xabc"]\<close>, the argument \<^verbatim>\<open>{}\<close> is not an
  array, so its sanitized list is empty and differs from the stored one: the event is due.
  The handler logs, throws in the loop over the argument and emits nothing; the stored
  accounts stay. The empty array, on the same provider, does emit the event.
\<close>

theorem accountsChanged_lost_on_throw:
  "initialized scenarioState \<and>
   accounts scenarioState = Some [JStr ''0xabc''] \<and>
   sanitized (JObj []) = [] \<and>
   handleAccountsChanged scenarioState (JObj []) isEthAccounts =
     Threw (TypeErrorNotIterable (JObj []))
       (logIt (ErrorInvalidAccounts (JObj [])) scenarioState) \<and>
   events (stateAfter (handleAccountsChanged scenarioState (JObj []) isEthAccounts)) =
     events scenarioState \<and>
   accounts (stateAfter (handleAccountsChanged scenarioState (JObj []) isEthAccounts)) =
     Some [JStr ''0xabc''] \<and>
   events (stateAfter (handleAccountsChanged scenarioState (JArr []) False)) =
     events scenarioState @ [EvAccountsChanged []]"
proof -
  have thrown: "handleAccountsChanged scenarioState (JObj []) isEthAccounts =
     Threw (TypeErrorNotIterable (JObj []))
       (logIt (ErrorInvalidAccounts (JObj [])) scenarioState)"
    by (simp add: handleAccountsChanged_not_iterable)
  have emitted: "events (stateAfter (handleAccountsChanged scenarioState (JArr []) False)) =
     events scenarioState @ [EvAccountsChanged []]"
    using accountsChanged_emitted_iff [of "JArr []" scenarioState False] scenarioState_fields
    by (auto simp: sanitized_def)
  show ?thesis
    using thrown emitted scenarioState_fields
    by (simp add: sanitized_def logIt_def)
qed

text \<open>
  Claim C5 is what the initializer documents, and the code misses it when the first call
  does not come to its end. With a snapshot that lacks its accounts the first call throws a
  TypeError in the accounts handler, before the flag is set: \<^verbatim>\<open>initialized\<close> is still
  false, and the second call does not throw but returns and initializes the provider.
\<close>

theorem initializeState_second_call_returns:
  "initializeState hexPrefixed defaultState (Some partialSnapshot) =
     Threw (TypeErrorNotIterable JUndefined)
       (stateAfter (initializeState hexPrefixed defaultState (Some partialSnapshot))) \<and>
   \<not> initialized (stateAfter (initializeState hexPrefixed defaultState (Some partialSnapshot))) \<and>
   initializeState hexPrefixed
       (stateAfter (initializeState hexPrefixed defaultState (Some partialSnapshot))) None =
     Returned
       (emit EvInitialized
          ((stateAfter (initializeState hexPrefixed defaultState (Some partialSnapshot)))
             \<lparr>initialized := True\<rparr>)) \<and>
   initializeState hexPrefixed
       (stateAfter (initializeState hexPrefixed defaultState (Some partialSnapshot))) None \<noteq>
     Threw ProviderAlreadyInitialized
       (stateAfter (initializeState hexPrefixed defaultState (Some partialSnapshot)))"
  by (simp add: initializeState_partial) (simp add: initializeState_def)

text \<open>
  Claim C8: for every chain id that fails validation, the chain-changed handler writes one
  error to the log and returns; the stored chain id, the emitted events and every other
  field are as before.
\<close>

theorem handleChainChanged_invalid:
  assumes "\<not> isValidChainId cid"
  shows "handleChainChanged isValidChainId s cid =
           s\<lparr>logs := logs s @ [ErrorInvalidNetworkParams cid]\<rparr> \<and>
         chainId (handleChainChanged isValidChainId s cid) = chainId s \<and>
         events (handleChainChanged isValidChainId s cid) = events s"
  using assms by (simp add: handleChainChanged_def logIt_def)

theorem handleChainChanged_invalid_witness:
  "\<not> hexPrefixed (JStr ''1'') \<and>
   handleChainChanged hexPrefixed defaultState (JStr ''1'') =
     defaultState\<lparr>logs := logs defaultState @ [ErrorInvalidNetworkParams (JStr ''1'')]\<rparr> \<and>
   chainId (handleChainChanged hexPrefixed defaultState (JStr ''1'')) = JNull \<and>
   events (handleChainChanged hexPrefixed defaultState (JStr ''1'')) = []"
  using handleChainChanged_invalid [of hexPrefixed "JStr ''1''" defaultState]
  by (simp add: defaultState_def)

section \<open>Properties of the request path, the indirection layer and the installer\<close>

subsection \<open>The factory\<close>

lemma mutableProxyFactory_eq:
  "mutableProxyFactory =
     \<lparr> mutableTarget = Val (JObj []), mutableHandler = HandlerReflect,
       proxyTarget = Val (JObj []) \<rparr>"
  by (simp add: mutableProxyFactory_def setTarget_def setHandlerReflect_def
      closureVariables_def)

subsection \<open>The validator\<close>

lemma request_rejects:
  assumes "specInvalidRequest args"
  shows "\<exists>m. request w c args = (RejectedInvalidRequest m args, w)"
  using assms
  by (cases args)
     (auto simp: request_def specInvalidRequest_def isNonNullObject_def Let_def
        split: option.splits)

lemma request_dispatches:
  assumes "\<not> specInvalidRequest args"
  shows "request w c args =
           (case rpcRequest w c
                   (JObj [(''method'', getProp args ''method''),
                          (''params'', getProp args ''params'')]) of
              (r, w1) \<Rightarrow> (Dispatched r, w1))"
  using assms
  by (cases args)
     (auto simp: request_def specInvalidRequest_def isNonNullObject_def Let_def
        split: option.splits)

lemma rpcRequest_providerState: "providerState (snd (rpcRequest w c payload)) = providerState w"
  by (auto simp: rpcRequest_def Let_def split: setter.splits sum.splits)

lemma request_providerState: "providerState (snd (request w c args)) = providerState w"
proof (cases "specInvalidRequest args")
  case True
  then show ?thesis using request_rejects [of args w c] by auto
next
  case False
  then show ?thesis
    using request_dispatches [of args w c]
      rpcRequest_providerState [of w c "JObj [(''method'', getProp args ''method''),
                          (''params'', getProp args ''params'')]"]
    by (auto split: prod.splits)
qed

subsection \<open>The installer\<close>

lemma pollTick_detects_early:
  assumes "truthy found" and "truthy (getProp found ''isMetaMask'')" and "count w < 9"
  shows "pollTick found w =
           w\<lparr> originalMetaMask := Val found, waymontTargetSetter := MpfSetTarget,
              layer := mutableProxyFactory\<lparr>mutableTarget := Facade\<rparr>,
              windowEthereum := Indirection, intervalActive := False,
              count := count w + 1 \<rparr>"
  using assms by (simp add: pollTick_def Let_def)

lemma pollTick_detects_late:
  assumes "truthy found" and "truthy (getProp found ''isMetaMask'')" and "count w \<ge> 9"
  shows "pollTick found w =
           w\<lparr> originalMetaMask := Val found, waymontTargetSetter := MpfSetTarget,
              layer := mutableProxyFactory\<lparr>mutableTarget := Facade\<rparr>,
              windowEthereum := Facade, intervalActive := False,
              count := count w + 1, ethereumWritable := False \<rparr>"
  using assms by (simp add: pollTick_def Let_def)

lemma latePage_fields:
  "originalMetaMask latePage = Val metaMask \<and> waymontTargetSetter latePage = MpfSetTarget \<and>
   windowEthereum latePage = Facade \<and> count latePage = 10 \<and> \<not> intervalActive latePage \<and>
   layer latePage = mutableProxyFactory\<lparr>mutableTarget := Facade\<rparr>"
  by (simp add: latePage_def initialPage_def pollTick_def metaMask_def Let_def)

subsection \<open>The dispatcher when the proxy holds the global slot\<close>

lemma rpcRequest_forwards_to_candidate:
  assumes "originalMetaMask w = Val m" and "instanceofObject (Val m)" and "hasRequest (Val m)"
    and "waymontTargetSetter w = MpfSetTarget" and "windowEthereum w = Indirection"
    and "mutableHandler (layer w) = HandlerReflect"
    and "getProp payload ''method'' = JStr ''eth_requestAccounts''"
  shows "rpcRequest w False payload =
           (ForwardedTo (Val m) (JStr ''eth_requestAccounts'') (getProp payload ''params''),
            w\<lparr>layer := (layer w)\<lparr>mutableTarget := Val m\<rparr>\<rparr>)"
proof -
  have "\<not> isPrimitive payload"
    using assms(7) by (cases payload) auto
  moreover have "m \<noteq> JUndefined"
    using assms(2) by auto
  ultimately show ?thesis
    using assms
    by (simp add: rpcRequest_def setTarget_def windowEthereumRequest_def trapCall_def
        reflectKeys_def Let_def)
qed

subsection \<open>The claims on the request path, the indirection layer and the facade\<close>

text \<open>
  Claim C6 is what the dispatcher is written to do, and the code misses it on a page where
  the other provider is found at the tenth poll. The callback records the candidate and
  puts the proxy into \<^verbatim>\<open>window.ethereum\<close>, then counts to ten in the same run and
  overwrites the slot with the provider itself. When the user then picks the other
  candidate, the dispatcher retargets the proxy, which nothing refers to any more, and
  \<^verbatim>\<open>window.ethereum.request\<close> is received by the provider's own \<^verbatim>\<open>request\<close>: the candidate
  does not get the call.
\<close>

theorem rpcRequest_forwards_to_itself:
  "originalMetaMask latePage = Val metaMask \<and>
   windowEthereum latePage = Facade \<and>
   fst (rpcRequest latePage False requestAccounts) =
     ForwardedTo Facade (JStr ''eth_requestAccounts'') (JArr []) \<and>
   fst (rpcRequest latePage False requestAccounts) \<noteq>
     ForwardedTo (Val metaMask) (JStr ''eth_requestAccounts'') (JArr []) \<and>
   mutableTarget (layer (snd (rpcRequest latePage False requestAccounts))) = Val metaMask"
  using latePage_fields
  by (simp add: rpcRequest_def requestAccounts_def setTarget_def windowEthereumRequest_def
      metaMask_def mutableProxyFactory_eq Let_def)

text \<open>
  Claim C7: for every delegate \<^verbatim>\<open>d\<close> that is an object, \<^verbatim>\<open>setTarget\<close> installs it, and every
  trapped operation on the proxy from then on is the \<^verbatim>\<open>Reflect\<close> method applied to \<^verbatim>\<open>d\<close>.
  An operation that is under way when \<^verbatim>\<open>d\<close> is assigned was applied to the delegate of
  before and stays so, and it leaves the layer with \<^verbatim>\<open>d\<close> for the next operation. The
  object the proxy was built around, and the handler, are never replaced.
\<close>

theorem setTarget_retargets:
  assumes "instanceofObject d" and "mutableHandler l = HandlerReflect"
    and "property \<in> set reflectKeys"
  shows "setTarget d l = Inr (l\<lparr>mutableTarget := d\<rparr>) \<and>
         trapCall (l\<lparr>mutableTarget := d\<rparr>) property args =
           Inr (ReflectCall property (d # drop 1 args)) \<and>
         performTrap (reassigningDuring d body) l property args =
           Inr (body (ReflectCall property (mutableTarget l # drop 1 args)),
                l\<lparr>mutableTarget := d\<rparr>) \<and>
         proxyTarget (l\<lparr>mutableTarget := d\<rparr>) = proxyTarget l \<and>
         mutableHandler (l\<lparr>mutableTarget := d\<rparr>) = mutableHandler l"
  using assms
  by (simp add: setTarget_def trapCall_def performTrap_def reassigningDuring_def)

theorem setTarget_retargets_witness:
  "instanceofObject Facade \<and> mutableHandler mutableProxyFactory = HandlerReflect \<and>
   ''get'' \<in> set reflectKeys \<and>
   setTarget Facade mutableProxyFactory = Inr (mutableProxyFactory\<lparr>mutableTarget := Facade\<rparr>) \<and>
   trapCall (mutableProxyFactory\<lparr>mutableTarget := Facade\<rparr>) ''get''
       [Val (JObj []), Val (JStr ''request''), Indirection] =
     Inr (ReflectCall ''get'' [Facade, Val (JStr ''request''), Indirection]) \<and>
   performTrap (reassigningDuring Facade (\<lambda>c. c)) mutableProxyFactory ''get''
       [Val (JObj []), Val (JStr ''request''), Indirection] =
     Inr (ReflectCall ''get'' [Val (JObj []), Val (JStr ''request''), Indirection],
          mutableProxyFactory\<lparr>mutableTarget := Facade\<rparr>)"
proof -
  have h1: "instanceofObject Facade" by simp
  have h2: "mutableHandler mutableProxyFactory = HandlerReflect"
    by (simp add: mutableProxyFactory_eq)
  have h3: "''get'' \<in> set reflectKeys" by (simp add: reflectKeys_def)
  show ?thesis
    using h1 h2 h3
      setTarget_retargets [OF h1 h2 h3,
        of "[Val (JObj []), Val (JStr ''request''), Indirection]" "\<lambda>c. c"]
    by (simp add: mutableProxyFactory_eq)
qed

text \<open>
  Claim C9: the call is rejected with an invalid-request error exactly when the argument
  is not a plain object, or its method is missing, not a string or empty, or its params
  are present but neither an array nor a non-null object. A rejection leaves the page as it
  was; otherwise the pair of method and params is what the dispatcher is given; and in
  either case the provider's state is as before.
\<close>

theorem request_rejects_iff:
  "((\<exists>m. fst (request w confirmWaymont args) = RejectedInvalidRequest m args)
      \<longleftrightarrow> specInvalidRequest args) \<and>
   (specInvalidRequest args \<longrightarrow>
      (\<exists>m. request w confirmWaymont args = (RejectedInvalidRequest m args, w))) \<and>
   (\<not> specInvalidRequest args \<longrightarrow>
      request w confirmWaymont args =
        (case rpcRequest w confirmWaymont
                (JObj [(''method'', getProp args ''method''),
                       (''params'', getProp args ''params'')]) of
           (r, w1) \<Rightarrow> (Dispatched r, w1))) \<and>
   providerState (snd (request w confirmWaymont args)) = providerState w"
proof (cases "specInvalidRequest args")
  case True
  then show ?thesis
    using request_rejects [of args w confirmWaymont] request_providerState [of w confirmWaymont args]
    by auto
next
  case False
  then show ?thesis
    using request_dispatches [of args w confirmWaymont]
      request_providerState [of w confirmWaymont args]
    by (auto split: prod.splits)
qed

theorem request_rejects_iff_witness:
  "specInvalidRequest (JObj [(''method'', JStr ''eth_accounts''), (''params'', JNull)]) \<and>
   request initialPage True (JObj [(''method'', JStr ''eth_accounts''), (''params'', JNull)]) =
     (RejectedInvalidRequest InvalidRequestParams
        (JObj [(''method'', JStr ''eth_accounts''), (''params'', JNull)]), initialPage) \<and>
   \<not> specInvalidRequest (JObj [(''method'', JStr ''eth_accounts'')]) \<and>
   request initialPage True (JObj [(''method'', JStr ''eth_accounts'')]) =
     (Dispatched
        (EngineHandle
           (JObj [(''method'', JStr ''eth_accounts''), (''params'', JUndefined),
                  (''jsonrpc'', JStr ''2.0'')])
           (AccountsCallback True)), initialPage)"
proof -
  have h1: "specInvalidRequest (JObj [(''method'', JStr ''eth_accounts''), (''params'', JNull)])"
    by (simp add: specInvalidRequest_def isNonNullObject_def)
  have h2: "\<not> specInvalidRequest (JObj [(''method'', JStr ''eth_accounts'')])"
    by (simp add: specInvalidRequest_def)
  show ?thesis
    using h1 h2
      request_rejects_iff [of initialPage True
        "JObj [(''method'', JStr ''eth_accounts''), (''params'', JNull)]"]
      request_rejects_iff [of initialPage True "JObj [(''method'', JStr ''eth_accounts'')]"]
    by (simp add: request_def rpcRequest_def initialPage_def closureVariables_def Let_def)
qed

text \<open>
  Claim C10: deleting any property key on the object that \<^verbatim>\<open>initializeProvider\<close> returns
  removes nothing, and it reports success for every key when the provider is an extensible
  object whose own properties are configurable, as an object whose properties were all
  created by assignment is.
\<close>

theorem proxyDelete_noop:
  "snd (proxyDelete target key) = target \<and>
   (extensible target \<and> (\<forall>(k, d) \<in> set (ownProps target). propConfigurable d)
      \<longrightarrow> proxyDelete target key = (DeleteReturned True, target))"
proof -
  have "snd (proxyDelete target key) = target"
    by (simp add: proxyDelete_def split: option.splits)
  moreover have "proxyDelete target key = (DeleteReturned True, target)"
    if "extensible target" and "\<forall>(k, d) \<in> set (ownProps target). propConfigurable d"
  proof (cases "map_of (ownProps target) key")
    case None
    then show ?thesis by (simp add: proxyDelete_def deletePropertyTrap_def)
  next
    case (Some d)
    then have "(key, d) \<in> set (ownProps target)" by (rule map_of_SomeD)
    with that have "propConfigurable d" by auto
    with Some that show ?thesis by (simp add: proxyDelete_def deletePropertyTrap_def)
  qed
  ultimately show ?thesis by blast
qed

theorem proxyDelete_noop_witness:
  "extensible sampleProvider \<and>
   list_all (\<lambda>(k, d). propConfigurable d) (ownProps sampleProvider) \<and>
   snd (proxyDelete sampleProvider ''chainId'') = sampleProvider \<and>
   proxyDelete sampleProvider ''chainId'' = (DeleteReturned True, sampleProvider) \<and>
   proxyDelete sampleProvider ''missing'' = (DeleteReturned True, sampleProvider)"
proof -
  have h1: "extensible sampleProvider"
    by (simp add: sampleProvider_def)
  have h2: "\<forall>(k, d) \<in> set (ownProps sampleProvider). propConfigurable d"
    by (simp add: sampleProvider_def)
  have h3: "list_all (\<lambda>(k, d). propConfigurable d) (ownProps sampleProvider)"
    by (simp add: sampleProvider_def)
  show ?thesis
    using h1 h2 h3 proxyDelete_noop [of sampleProvider "''chainId''"]
      proxyDelete_noop [of sampleProvider "''missing''"]
    by simp
qed

end
